theory Spec2Isabelle
  imports Complex_Main
begin

section \<open>Values exchanged with the API and between the stages\<close>

text \<open>
  What \<^verbatim>\<open>response.json()\<close> returns and what the stages hand to each other: Python
  values built from \<^verbatim>\<open>None\<close>, \<^verbatim>\<open>bool\<close>, \<^verbatim>\<open>int\<close>, \<^verbatim>\<open>float\<close>, \<^verbatim>\<open>str\<close>, \<^verbatim>\<open>list\<close> and
  \<^verbatim>\<open>dict\<close> with string keys. A dict is kept as an association list and read with
  \<open>map_of\<close>: a key bound twice reads as its first binding, so putting a pair in front is
  the dict with that key set. A float is the rational it denotes; the code only tests
  floats for being zero.
\<close>

datatype json =
    JNull
  | JBool bool
  | JInt int
  | JFloat rat
  | JStr string
  | JList "json list"
  | JObj "(string \<times> json) list"

text \<open>Python truthiness, as used by \<^verbatim>\<open>if x\<close>, \<^verbatim>\<open>x and y\<close> and \<^verbatim>\<open>not x\<close>.\<close>

fun truthy :: "json \<Rightarrow> bool" where
  "truthy JNull = False"
| "truthy (JBool b) = b"
| "truthy (JInt n) = (n \<noteq> 0)"
| "truthy (JFloat r) = (r \<noteq> 0)"
| "truthy (JStr s) = (s \<noteq> [])"
| "truthy (JList xs) = (xs \<noteq> [])"
| "truthy (JObj kvs) = (kvs \<noteq> [])"

text \<open>\<^verbatim>\<open>d.get(k, default)\<close>; \<^verbatim>\<open>d.get(k)\<close> is \<open>dict_get d k JNull\<close>.\<close>

definition dict_get :: "(string \<times> json) list \<Rightarrow> string \<Rightarrow> json \<Rightarrow> json" where
  "dict_get d k dflt = (case map_of d k of None \<Rightarrow> dflt | Some v \<Rightarrow> v)"

text \<open>
  The exceptions of the program. \<open>ValueError\<close> and \<open>Exception\<close> carry the fixed part of
  the message the source gives them; the text of a wrapped cause is not kept.
\<close>

datatype error =
    TypeError
  | AttributeError
  | ValidationError
  | RequestException
  | ValueError string
  | Exception string

section \<open>models.py\<close>

record action =
  action_name :: string
  action_desc :: string

record monster =
  name :: string
  hit_points :: "int option"
  armor_class :: "int option"
  actions :: "action list"

record monster_summary =
  summary_index :: string
  summary_name :: string
  summary_url :: string

record api_response =
  response_count :: int
  results :: "monster_summary list"

text \<open>
  Field validation as pydantic performs it for the annotations of models.py. A field
  annotated \<^verbatim>\<open>str\<close> accepts a string only. A field annotated \<^verbatim>\<open>int\<close> accepts an integer as
  it is and rejects \<^verbatim>\<open>None\<close>, lists and dicts; whether and how a bool, a float or a
  string is converted is the library's lax-mode table, which is not part of this
  repository and is taken as the parameter \<open>lax\<close> (\<open>None\<close>: rejected).
  \<^verbatim>\<open>Optional[int]\<close> accepts \<^verbatim>\<open>None\<close> as well.
\<close>

type_synonym lax_int = "json \<Rightarrow> int option"

fun validate_str :: "json \<Rightarrow> error + string" where
  "validate_str (JStr s) = Inr s"
| "validate_str _ = Inl ValidationError"

fun validate_int :: "lax_int \<Rightarrow> json \<Rightarrow> error + int" where
  "validate_int lax (JInt n) = Inr n"
| "validate_int lax JNull = Inl ValidationError"
| "validate_int lax (JList xs) = Inl ValidationError"
| "validate_int lax (JObj kvs) = Inl ValidationError"
| "validate_int lax v = (case lax v of None \<Rightarrow> Inl ValidationError | Some n \<Rightarrow> Inr n)"

fun validate_optional_int :: "lax_int \<Rightarrow> json \<Rightarrow> error + int option" where
  "validate_optional_int lax JNull = Inr None"
| "validate_optional_int lax v =
     (case validate_int lax v of Inl e \<Rightarrow> Inl e | Inr n \<Rightarrow> Inr (Some n))"

text \<open>\<^verbatim>\<open>Action(name=n, desc=d)\<close>: both fields are required strings.\<close>

definition Action_init :: "json \<Rightarrow> json \<Rightarrow> error + action" where
  "Action_init n d =
     (case validate_str n of
        Inl e \<Rightarrow> Inl e
      | Inr n' \<Rightarrow>
          (case validate_str d of
             Inl e \<Rightarrow> Inl e
           | Inr d' \<Rightarrow> Inr \<lparr>action_name = n', action_desc = d'\<rparr>))"

text \<open>
  \<^verbatim>\<open>Monster(name=n, hit_points=hp, armor_class=ac, actions=acts)\<close> with \<open>acts\<close> already
  a list of Action objects, as process_monster_data calls it.
\<close>

definition Monster_init :: "lax_int \<Rightarrow> json \<Rightarrow> json \<Rightarrow> json \<Rightarrow> action list \<Rightarrow> error + monster" where
  "Monster_init lax n hp ac acts =
     (case validate_str n of
        Inl e \<Rightarrow> Inl e
      | Inr n' \<Rightarrow>
          (case validate_optional_int lax hp of
             Inl e \<Rightarrow> Inl e
           | Inr hp' \<Rightarrow>
               (case validate_optional_int lax ac of
                  Inl e \<Rightarrow> Inl e
                | Inr ac' \<Rightarrow>
                    Inr \<lparr>name = n', hit_points = hp', armor_class = ac', actions = acts\<rparr>)))"

section \<open>api_client.py: process_monster_data\<close>

text \<open>
  The body of the loop over \<^verbatim>\<open>raw_data['actions']\<close>: \<^verbatim>\<open>action_data.get\<close> exists on a dict
  only.
\<close>

fun process_action :: "json \<Rightarrow> error + action" where
  "process_action (JObj action_data) =
     Action_init (dict_get action_data ''name'' (JStr [])) (dict_get action_data ''desc'' (JStr []))"
| "process_action _ = Inl AttributeError"

fun process_action_list :: "json list \<Rightarrow> error + action list" where
  "process_action_list [] = Inr []"
| "process_action_list (action_data # rest) =
     (case process_action action_data of
        Inl e \<Rightarrow> Inl e
      | Inr a \<Rightarrow>
          (case process_action_list rest of
             Inl e \<Rightarrow> Inl e
           | Inr as \<Rightarrow> Inr (a # as)))"

text \<open>
  Lines 87 to 94. Iterating a truthy value that is not a list: a dict yields its keys
  and a string its characters, neither of which has \<^verbatim>\<open>get\<close>; a number is not iterable.
\<close>

definition extract_actions :: "(string \<times> json) list \<Rightarrow> error + action list" where
  "extract_actions raw_data =
     (case map_of raw_data ''actions'' of
        None \<Rightarrow> Inr []
      | Some acts \<Rightarrow>
          if \<not> truthy acts then Inr []
          else (case acts of
                  JList xs \<Rightarrow> process_action_list xs
                | JObj kvs \<Rightarrow> Inl AttributeError
                | JStr s \<Rightarrow> Inl AttributeError
                | _ \<Rightarrow> Inl TypeError))"

text \<open>\<^verbatim>\<open>isinstance(x, list)\<close> and \<^verbatim>\<open>isinstance(x, int)\<close>; a bool is an int in Python.\<close>

fun isinstance_list :: "json \<Rightarrow> bool" where
  "isinstance_list (JList xs) = True"
| "isinstance_list _ = False"

fun isinstance_int :: "json \<Rightarrow> bool" where
  "isinstance_int (JInt n) = True"
| "isinstance_int (JBool b) = True"
| "isinstance_int _ = False"

text \<open>\<^verbatim>\<open>x[0].get('value')\<close> for a non-empty list \<open>x\<close>: only a dict has \<^verbatim>\<open>get\<close>.\<close>

fun first_value :: "json \<Rightarrow> error + json" where
  "first_value (JList (JObj entry # rest)) = Inr (dict_get entry ''value'' JNull)"
| "first_value _ = Inl AttributeError"

text \<open>Lines 96 to 103: the value left in the local \<^verbatim>\<open>armor_class\<close> (\<open>JNull\<close> for \<^verbatim>\<open>None\<close>).\<close>

definition extract_armor_class :: "(string \<times> json) list \<Rightarrow> error + json" where
  "extract_armor_class raw_data =
     (case map_of raw_data ''armor_class'' of
        None \<Rightarrow> Inr JNull
      | Some ac \<Rightarrow>
          if \<not> truthy ac then Inr JNull
          else if isinstance_list ac \<and> truthy ac then first_value ac
          else if isinstance_int ac then Inr ac
          else Inr JNull)"

text \<open>The body of the \<^verbatim>\<open>try\<close> block, for a dict.\<close>

definition process_monster_fields :: "lax_int \<Rightarrow> (string \<times> json) list \<Rightarrow> error + monster" where
  "process_monster_fields lax raw_data =
     (case extract_actions raw_data of
        Inl e \<Rightarrow> Inl e
      | Inr acts \<Rightarrow>
          (case extract_armor_class raw_data of
             Inl e \<Rightarrow> Inl e
           | Inr ac \<Rightarrow>
               Monster_init lax (dict_get raw_data ''name'' (JStr []))
                 (dict_get raw_data ''hit_points'' JNull) ac acts))"

text \<open>
  process_monster_data: any exception of the body is raised again as
  \<^verbatim>\<open>Exception("Failed to process monster data: ...")\<close>. A payload that is not a dict
  always raises inside the body (\<^verbatim>\<open>in\<close> on a number or \<^verbatim>\<open>None\<close>, indexing a list or a
  string with a string, or the missing \<^verbatim>\<open>get\<close>).
\<close>

fun process_monster_data :: "lax_int \<Rightarrow> json \<Rightarrow> error + monster" where
  "process_monster_data lax (JObj raw_data) =
     (case process_monster_fields lax raw_data of
        Inl e \<Rightarrow> Inl (Exception ''Failed to process monster data'')
      | Inr m \<Rightarrow> Inr m)"
| "process_monster_data lax _ = Inl (Exception ''Failed to process monster data'')"

section \<open>api_client.py: select_random_monsters\<close>

text \<open>
  \<^verbatim>\<open>random.sample(population, k)\<close> of the standard library: it raises \<^verbatim>\<open>ValueError\<close>
  unless \<open>0 \<le> k \<le> len(population)\<close> and otherwise draws \<open>k\<close> positions without
  replacement. The generator is the explicit argument \<open>rng\<close>, whose \<open>i\<close>-th output picks
  among the positions not drawn yet.
\<close>

fun draw :: "(nat \<Rightarrow> nat) \<Rightarrow> nat \<Rightarrow> 'a list \<Rightarrow> nat \<Rightarrow> 'a list" where
  "draw rng i pool 0 = []"
| "draw rng i [] (Suc k) = []"
| "draw rng i (p # ps) (Suc k) =
     (let j = rng i mod length (p # ps)
      in (p # ps) ! j # draw rng (Suc i) (take j (p # ps) @ drop (Suc j) (p # ps)) k)"

definition random_sample :: "(nat \<Rightarrow> nat) \<Rightarrow> 'a list \<Rightarrow> int \<Rightarrow> error + 'a list" where
  "random_sample rng population k =
     (if 0 \<le> k \<and> k \<le> int (length population)
      then Inr (draw rng 0 population (nat k))
      else Inl (ValueError ''Sample larger than population or is negative''))"

definition select_random_monsters :: "(nat \<Rightarrow> nat) \<Rightarrow> 'a list \<Rightarrow> int \<Rightarrow> error + 'a list" where
  "select_random_monsters rng monsters count =
     (if int (length monsters) < count then Inr monsters
      else random_sample rng monsters count)"

section \<open>The world outside: network and files\<close>

text \<open>
  What a file holds: the JSON document \<^verbatim>\<open>json.dump\<close> wrote in full, or what is left of
  one when \<^verbatim>\<open>json.dump\<close> raised part-way (a proper prefix of its text, possibly empty).
  The layout of the text is not modelled.
\<close>

datatype file_content = Whole json | Partial json

text \<open>
  The state the stages act on: the files; which paths \<^verbatim>\<open>open(path, 'w')\<close> succeeds
  on; for which path and document \<^verbatim>\<open>json.dump\<close> into the opened file runs to its end
  (it raises when a string of the document has no utf-8 encoding, as a lone surrogate
  has none, or when the device fails); and the URLs requested so far, in order. The
  remote side is a parameter: the outcome of a GET (after \<^verbatim>\<open>raise_for_status\<close> and
  \<^verbatim>\<open>response.json()\<close>) given the requests made before it and the URL.
\<close>

record world =
  files :: "string \<rightharpoonup> file_content"
  writable :: "string \<Rightarrow> bool"
  dump_completes :: "string \<Rightarrow> json \<Rightarrow> bool"
  requests :: "string list"

type_synonym network = "string list \<Rightarrow> string \<Rightarrow> error + json"

definition http_get :: "network \<Rightarrow> world \<Rightarrow> string \<Rightarrow> (error + json) \<times> world" where
  "http_get net w url = (net (requests w) url, w\<lparr>requests := requests w @ [url]\<rparr>)"

text \<open>\<^verbatim>\<open>except requests.RequestException as e: raise Exception(f"{msg}: {e}")\<close>\<close>

fun wrap_request_exception :: "string \<Rightarrow> error + 'a \<Rightarrow> error + 'a" where
  "wrap_request_exception msg (Inl e) = (if e = RequestException then Inl (Exception msg) else Inl e)"
| "wrap_request_exception msg (Inr v) = Inr v"

section \<open>Building models from dicts, and dumping them\<close>

text \<open>A list comprehension whose element expression may raise: the first exception ends it.\<close>

fun comprehension :: "('a \<Rightarrow> error + 'b) \<Rightarrow> 'a list \<Rightarrow> error + 'b list" where
  "comprehension f [] = Inr []"
| "comprehension f (x # xs) =
     (case f x of
        Inl e \<Rightarrow> Inl e
      | Inr y \<Rightarrow> (case comprehension f xs of Inl e \<Rightarrow> Inl e | Inr ys \<Rightarrow> Inr (y # ys)))"

definition required_str :: "(string \<times> json) list \<Rightarrow> string \<Rightarrow> error + string" where
  "required_str d k = (case map_of d k of None \<Rightarrow> Inl ValidationError | Some v \<Rightarrow> validate_str v)"

definition MonsterSummary_fields :: "(string \<times> json) list \<Rightarrow> error + monster_summary" where
  "MonsterSummary_fields d =
     (case required_str d ''index'' of
        Inl e \<Rightarrow> Inl e
      | Inr i \<Rightarrow>
          (case required_str d ''name'' of
             Inl e \<Rightarrow> Inl e
           | Inr n \<Rightarrow>
               (case required_str d ''url'' of
                  Inl e \<Rightarrow> Inl e
                | Inr u \<Rightarrow> Inr \<lparr>summary_index = i, summary_name = n, summary_url = u\<rparr>)))"

text \<open>\<^verbatim>\<open>MonsterSummary(**monster)\<close>: \<^verbatim>\<open>**\<close> needs a mapping.\<close>

fun MonsterSummary_kwargs :: "json \<Rightarrow> error + monster_summary" where
  "MonsterSummary_kwargs (JObj d) = MonsterSummary_fields d"
| "MonsterSummary_kwargs _ = Inl TypeError"

text \<open>A MonsterSummary or an Action nested in a validated field is given as a dict.\<close>

fun MonsterSummary_nested :: "json \<Rightarrow> error + monster_summary" where
  "MonsterSummary_nested (JObj d) = MonsterSummary_fields d"
| "MonsterSummary_nested _ = Inl ValidationError"

fun Action_nested :: "json \<Rightarrow> error + action" where
  "Action_nested (JObj d) =
     (case required_str d ''name'' of
        Inl e \<Rightarrow> Inl e
      | Inr n \<Rightarrow>
          (case required_str d ''desc'' of
             Inl e \<Rightarrow> Inl e
           | Inr ds \<Rightarrow> Inr \<lparr>action_name = n, action_desc = ds\<rparr>))"
| "Action_nested _ = Inl ValidationError"

fun validate_list :: "(json \<Rightarrow> error + 'b) \<Rightarrow> json \<Rightarrow> error + 'b list" where
  "validate_list f (JList xs) =
     (case comprehension f xs of Inl e \<Rightarrow> Inl ValidationError | Inr ys \<Rightarrow> Inr ys)"
| "validate_list f _ = Inl ValidationError"

text \<open>\<^verbatim>\<open>APIResponse(**response.json())\<close>\<close>

fun APIResponse_kwargs :: "lax_int \<Rightarrow> json \<Rightarrow> error + api_response" where
  "APIResponse_kwargs lax (JObj d) =
     (case map_of d ''count'' of
        None \<Rightarrow> Inl ValidationError
      | Some c \<Rightarrow>
          (case validate_int lax c of
             Inl e \<Rightarrow> Inl e
           | Inr n \<Rightarrow>
               (case map_of d ''results'' of
                  None \<Rightarrow> Inl ValidationError
                | Some rs \<Rightarrow>
                    (case validate_list MonsterSummary_nested rs of
                       Inl e \<Rightarrow> Inl e
                     | Inr ss \<Rightarrow> Inr \<lparr>response_count = n, results = ss\<rparr>))))"
| "APIResponse_kwargs lax _ = Inl TypeError"

text \<open>
  \<^verbatim>\<open>Monster(**monster)\<close>: \<open>name\<close> is required, \<open>hit_points\<close> and \<open>armor_class\<close> default to
  \<^verbatim>\<open>None\<close>, \<open>actions\<close> defaults to the empty list.
\<close>

fun Monster_kwargs :: "lax_int \<Rightarrow> json \<Rightarrow> error + monster" where
  "Monster_kwargs lax (JObj d) =
     (case (case map_of d ''actions'' of
              None \<Rightarrow> Inr []
            | Some acts \<Rightarrow> validate_list Action_nested acts) of
        Inl e \<Rightarrow> Inl e
      | Inr acts \<Rightarrow>
          (case map_of d ''name'' of
             None \<Rightarrow> Inl ValidationError
           | Some n \<Rightarrow>
               Monster_init lax n (dict_get d ''hit_points'' JNull)
                 (dict_get d ''armor_class'' JNull) acts))"
| "Monster_kwargs lax _ = Inl TypeError"

text \<open>\<^verbatim>\<open>model_dump()\<close>\<close>

definition json_of_int_option :: "int option \<Rightarrow> json" where
  "json_of_int_option v = (case v of None \<Rightarrow> JNull | Some n \<Rightarrow> JInt n)"

definition action_dump :: "action \<Rightarrow> json" where
  "action_dump a = JObj [(''name'', JStr (action_name a)), (''desc'', JStr (action_desc a))]"

definition monster_dump :: "monster \<Rightarrow> json" where
  "monster_dump m =
     JObj [(''name'', JStr (name m)),
           (''hit_points'', json_of_int_option (hit_points m)),
           (''armor_class'', json_of_int_option (armor_class m)),
           (''actions'', JList (map action_dump (actions m)))]"

definition summary_dump :: "monster_summary \<Rightarrow> json" where
  "summary_dump s =
     JObj [(''index'', JStr (summary_index s)),
           (''name'', JStr (summary_name s)),
           (''url'', JStr (summary_url s))]"

text \<open>
  Iterating the value pulled from the hand-off channel in a comprehension: a list yields
  its elements; a dict yields its keys and a string its characters, on which \<^verbatim>\<open>**\<close>
  raises \<^verbatim>\<open>TypeError\<close>, as iterating a number does.
\<close>

fun for_each_pulled :: "(json \<Rightarrow> error + 'b) \<Rightarrow> json \<Rightarrow> error + 'b list" where
  "for_each_pulled f (JList xs) = comprehension f xs"
| "for_each_pulled f _ = Inl TypeError"

section \<open>api_client.py: fetching and saving\<close>

definition BASE_URL :: string where
  "BASE_URL = ''https://www.dnd5eapi.co/api/2014''"

text \<open>The slice \<^verbatim>\<open>xs[:l]\<close>; a negative \<open>l\<close> counts from the end.\<close>

definition py_prefix :: "'a list \<Rightarrow> int \<Rightarrow> 'a list" where
  "py_prefix xs l = (if l < 0 then take (nat (int (length xs) + l)) xs else take (nat l) xs)"

definition fetch_monsters_list ::
  "lax_int \<Rightarrow> network \<Rightarrow> int option \<Rightarrow> world \<Rightarrow> (error + monster_summary list) \<times> world" where
  "fetch_monsters_list lax net limit w =
     (case http_get net w (BASE_URL @ ''/monsters'') of
        (response, w') \<Rightarrow>
          (case wrap_request_exception ''Failed to fetch monsters list'' response of
             Inl e \<Rightarrow> (Inl e, w')
           | Inr body \<Rightarrow>
               (case APIResponse_kwargs lax body of
                  Inl e \<Rightarrow> (Inl e, w')
                | Inr api_response \<Rightarrow>
                    (case limit of
                       Some l \<Rightarrow> (Inr (py_prefix (results api_response) l), w')
                     | None \<Rightarrow> (Inr (results api_response), w')))))"

definition full_url :: "string \<Rightarrow> string" where
  "full_url monster_url =
     (case monster_url of
        [] \<Rightarrow> monster_url
      | c # _ \<Rightarrow> if c = CHR ''/'' then ''https://www.dnd5eapi.co'' @ monster_url else monster_url)"

definition fetch_monster_details :: "network \<Rightarrow> world \<Rightarrow> string \<Rightarrow> (error + json) \<times> world" where
  "fetch_monster_details net w monster_url =
     (case http_get net w (full_url monster_url) of
        (response, w') \<Rightarrow> (wrap_request_exception ''Failed to fetch monster details'' response, w'))"

text \<open>
  save_monsters_to_json. Dumping the models cannot fail. \<^verbatim>\<open>open(filename, 'w')\<close> may
  raise, and then no file is touched; once it has succeeded the previous contents are
  gone, and \<^verbatim>\<open>json.dump\<close> either writes the whole list or raises part-way, leaving a
  partial file behind when the \<^verbatim>\<open>with\<close> block closes it. Either exception is raised again
  as \<^verbatim>\<open>Exception("Failed to save monsters to JSON: ...")\<close>.
\<close>

definition save_monsters_to_json :: "monster list \<Rightarrow> string \<Rightarrow> world \<Rightarrow> (error + string) \<times> world" where
  "save_monsters_to_json monsters filename w =
     (let data = JList (map monster_dump monsters)
      in if \<not> writable w filename
         then (Inl (Exception ''Failed to save monsters to JSON''), w)
         else if dump_completes w filename data
         then (Inr filename, w\<lparr>files := (files w)(filename \<mapsto> Whole data)\<rparr>)
         else (Inl (Exception ''Failed to save monsters to JSON''),
               w\<lparr>files := (files w)(filename \<mapsto> Partial data)\<rparr>))"

section \<open>tasks.py\<close>

text \<open>
  Each task takes what \<^verbatim>\<open>ti.xcom_pull\<close> returns as the argument \<open>pulled\<close> (\<open>JNull\<close> when
  the channel has nothing) and returns the serialized list it would push.
\<close>

definition fetch_monsters_task ::
  "lax_int \<Rightarrow> network \<Rightarrow> int option \<Rightarrow> world \<Rightarrow> (error + json) \<times> world" where
  "fetch_monsters_task lax net limit w =
     (case fetch_monsters_list lax net limit w of
        (Inl e, w') \<Rightarrow> (Inl e, w')
      | (Inr monsters_list, w') \<Rightarrow> (Inr (JList (map summary_dump monsters_list)), w'))"

definition select_random_monsters_task :: "(nat \<Rightarrow> nat) \<Rightarrow> int \<Rightarrow> json \<Rightarrow> error + json" where
  "select_random_monsters_task rng count pulled =
     (if \<not> truthy pulled
      then Inl (ValueError ''No monster data received from fetch_monsters task'')
      else (case for_each_pulled MonsterSummary_kwargs pulled of
              Inl e \<Rightarrow> Inl e
            | Inr monsters_list \<Rightarrow>
                (case select_random_monsters rng monsters_list count of
                   Inl e \<Rightarrow> Inl e
                 | Inr selected_monsters \<Rightarrow> Inr (JList (map summary_dump selected_monsters)))))"

text \<open>
  One pass of the \<^verbatim>\<open>try\<close> block of fetch_monster_details_task: the detail request, then
  the normalization. The request is made in either case.
\<close>

definition fetch_and_process ::
  "lax_int \<Rightarrow> network \<Rightarrow> world \<Rightarrow> monster_summary \<Rightarrow> (error + monster) \<times> world" where
  "fetch_and_process lax net w monster_summary =
     (case fetch_monster_details net w (summary_url monster_summary) of
        (Inl e, w') \<Rightarrow> (Inl e, w')
      | (Inr raw_data, w') \<Rightarrow> (process_monster_data lax raw_data, w'))"

text \<open>The \<^verbatim>\<open>for\<close> loop: \<^verbatim>\<open>except Exception: continue\<close> leaves \<open>detailed_monsters\<close> as it is.\<close>

fun details_loop ::
  "lax_int \<Rightarrow> network \<Rightarrow> monster_summary list \<Rightarrow> monster list \<Rightarrow> world \<Rightarrow> monster list \<times> world" where
  "details_loop lax net [] detailed_monsters w = (detailed_monsters, w)"
| "details_loop lax net (monster_summary # rest) detailed_monsters w =
     (case fetch_and_process lax net w monster_summary of
        (Inl e, w') \<Rightarrow> details_loop lax net rest detailed_monsters w'
      | (Inr m, w') \<Rightarrow> details_loop lax net rest (detailed_monsters @ [m]) w')"

definition fetch_monster_details_task ::
  "lax_int \<Rightarrow> network \<Rightarrow> json \<Rightarrow> world \<Rightarrow> (error + json) \<times> world" where
  "fetch_monster_details_task lax net pulled w =
     (if \<not> truthy pulled
      then (Inl (ValueError ''No selected monsters data received from select_random_monsters task''), w)
      else (case for_each_pulled MonsterSummary_kwargs pulled of
              Inl e \<Rightarrow> (Inl e, w)
            | Inr selected_monsters \<Rightarrow>
                (case details_loop lax net selected_monsters [] w of
                   (detailed_monsters, w') \<Rightarrow>
                     (Inr (JList (map monster_dump detailed_monsters)), w'))))"

definition save_monsters_task ::
  "lax_int \<Rightarrow> string \<Rightarrow> json \<Rightarrow> world \<Rightarrow> (error + string) \<times> world" where
  "save_monsters_task lax output_file pulled w =
     (if \<not> truthy pulled
      then (Inl (ValueError ''No monster data received from fetch_monster_details task''), w)
      else (case for_each_pulled (Monster_kwargs lax) pulled of
              Inl e \<Rightarrow> (Inl e, w)
            | Inr monsters \<Rightarrow> save_monsters_to_json monsters output_file w))"

section \<open>main.py\<close>

text \<open>
  main returns the exit code. The three MockTI classes hand each task the value the
  previous one returned; any exception ends the run with code 1.
\<close>

definition main :: "lax_int \<Rightarrow> network \<Rightarrow> (nat \<Rightarrow> nat) \<Rightarrow> world \<Rightarrow> int \<times> world" where
  "main lax net rng w =
     (if files w ''monsters.json'' \<noteq> None then (0, w)
      else (case fetch_monsters_task lax net None w of
              (Inl e, w1) \<Rightarrow> (1, w1)
            | (Inr monsters_data, w1) \<Rightarrow>
                (case select_random_monsters_task rng 5 monsters_data of
                   Inl e \<Rightarrow> (1, w1)
                 | Inr selected_data \<Rightarrow>
                     (case fetch_monster_details_task lax net selected_data w1 of
                        (Inl e, w2) \<Rightarrow> (1, w2)
                      | (Inr detailed_data, w2) \<Rightarrow>
                          (case save_monsters_task lax ''monsters.json'' detailed_data w2 of
                             (Inl e, w3) \<Rightarrow> (1, w3)
                           | (Inr saved_file, w3) \<Rightarrow> (0, w3))))))"

section \<open>What the enricher is measured against\<close>



section \<open>Normalization of a detail payload\<close>

lemma extract_actions_other_key:
  "k \<noteq> ''actions'' \<Longrightarrow> extract_actions ((k, v) # d) = extract_actions d"
  by (simp add: extract_actions_def)

lemma extract_armor_class_other_key:
  "k \<noteq> ''armor_class'' \<Longrightarrow> extract_armor_class ((k, v) # d) = extract_armor_class d"
  by (simp add: extract_armor_class_def)

lemma extract_armor_class_missing:
  "map_of d ''armor_class'' = None \<Longrightarrow> extract_armor_class d = Inr JNull"
  by (simp add: extract_armor_class_def)

text \<open>
  Setting \<open>armor_class\<close> in a payload that has none and normalizes to \<open>m\<close>: the result is
  \<open>m\<close> with the validated extracted value.
\<close>

lemma process_monster_data_with_armor_class:
  assumes "map_of d ''armor_class'' = None"
    and "process_monster_data lax (JObj d) = Inr m"
    and "extract_armor_class ((''armor_class'', v) # d) = Inr ac"
    and "validate_optional_int lax ac = Inr r"
  shows "process_monster_data lax (JObj ((''armor_class'', v) # d)) = Inr (m\<lparr>armor_class := r\<rparr>)"
  using assms
  by (auto simp: process_monster_fields_def extract_armor_class_missing extract_actions_other_key
        Monster_init_def dict_get_def split: sum.splits)

lemma process_monster_data_without_armor_class:
  assumes "map_of d ''armor_class'' = None"
    and "process_monster_data lax (JObj d) = Inr m"
  shows "armor_class m = None"
  using assms
  by (auto simp: process_monster_fields_def extract_armor_class_missing
        Monster_init_def split: sum.splits)

text \<open>
  C1 (the code departs from the claim). The claim asks that \<open>armor_class: 0\<close> be stored
  as the value 0. The guard \<^verbatim>\<open>'armor_class' in raw_data and raw_data['armor_class']\<close>
  is a truthiness test, and \<open>0\<close> is falsy: whenever the field is the integer 0 and the
  payload normalizes at all, the stored armor class is the absent-marker.
\<close>

theorem armor_class_zero_becomes_absent:
  assumes "map_of raw_data ''armor_class'' = Some (JInt 0)"
    and "process_monster_data lax (JObj raw_data) = Inr m"
  shows "armor_class m = None"
  using assms
  by (auto simp: process_monster_fields_def extract_armor_class_def Monster_init_def
        split: sum.splits)

theorem armor_class_zero_becomes_absent_witness:
  "map_of [(''name'', JStr ''Zero''), (''armor_class'', JInt 0)] ''armor_class'' = Some (JInt 0)
   \<and> process_monster_data (\<lambda>v. None) (JObj [(''name'', JStr ''Zero''), (''armor_class'', JInt 0)])
       = Inr \<lparr>name = ''Zero'', hit_points = None, armor_class = None, actions = []\<rparr>
   \<and> armor_class \<lparr>name = ''Zero'', hit_points = None, armor_class = None, actions = []\<rparr> = None"
  using armor_class_zero_becomes_absent
    [of "[(''name'', JStr ''Zero''), (''armor_class'', JInt 0)]" "\<lambda>v. None"
      "\<lparr>name = ''Zero'', hit_points = None, armor_class = None, actions = []\<rparr>"]
  by (simp add: process_monster_fields_def extract_armor_class_def extract_actions_def
        Monster_init_def dict_get_def)

text \<open>
  C3 (amended). An \<open>armor_class\<close> that is truthy and neither a list nor an int (a
  non-empty string, a non-zero float, a non-empty object) does not make
  process_monster_data raise and is stored as the absent-marker: a payload that
  normalizes to \<open>m\<close> without the field normalizes to the same \<open>m\<close> with it.
\<close>

theorem armor_class_unsupported_scalar_is_absent:
  assumes "map_of d ''armor_class'' = None"
    and "process_monster_data lax (JObj d) = Inr m"
    and "truthy v" and "\<not> isinstance_list v" and "\<not> isinstance_int v"
  shows "process_monster_data lax (JObj ((''armor_class'', v) # d)) = Inr m \<and> armor_class m = None"
proof -
  have none: "armor_class m = None"
    using assms(1,2) by (rule process_monster_data_without_armor_class)
  have "extract_armor_class ((''armor_class'', v) # d) = Inr JNull"
    using assms(3-5) by (simp add: extract_armor_class_def)
  then have "process_monster_data lax (JObj ((''armor_class'', v) # d)) = Inr (m\<lparr>armor_class := None\<rparr>)"
    by (rule process_monster_data_with_armor_class[OF assms(1,2), where r=None]) simp
  with none show ?thesis by simp
qed

theorem armor_class_unsupported_scalar_is_absent_witness:
  "map_of [(''name'', JStr ''Odd'')] ''armor_class'' = None
   \<and> process_monster_data (\<lambda>v. None) (JObj [(''name'', JStr ''Odd'')])
       = Inr \<lparr>name = ''Odd'', hit_points = None, armor_class = None, actions = []\<rparr>
   \<and> truthy (JStr ''15'') \<and> \<not> isinstance_list (JStr ''15'') \<and> \<not> isinstance_int (JStr ''15'')
   \<and> process_monster_data (\<lambda>v. None) (JObj [(''armor_class'', JStr ''15''), (''name'', JStr ''Odd'')])
       = Inr \<lparr>name = ''Odd'', hit_points = None, armor_class = None, actions = []\<rparr>
   \<and> truthy (JFloat (31 / 2)) \<and> \<not> isinstance_list (JFloat (31 / 2)) \<and> \<not> isinstance_int (JFloat (31 / 2))
   \<and> process_monster_data (\<lambda>v. None) (JObj [(''armor_class'', JFloat (31 / 2)), (''name'', JStr ''Odd'')])
       = Inr \<lparr>name = ''Odd'', hit_points = None, armor_class = None, actions = []\<rparr>"
  using armor_class_unsupported_scalar_is_absent [of "[(''name'', JStr ''Odd'')]" "\<lambda>v. None"
      "\<lparr>name = ''Odd'', hit_points = None, armor_class = None, actions = []\<rparr>" "JStr ''15''"]
    armor_class_unsupported_scalar_is_absent [of "[(''name'', JStr ''Odd'')]" "\<lambda>v. None"
      "\<lparr>name = ''Odd'', hit_points = None, armor_class = None, actions = []\<rparr>" "JFloat (31 / 2)"]
  by (simp add: process_monster_fields_def extract_armor_class_def extract_actions_def
        Monster_init_def dict_get_def)

text \<open>
  C3 as stated fails on a shape outside the three accepted ones: a non-empty list whose
  first entry is not an object. \<^verbatim>\<open>{"name": "Odd"}\<close> normalizes, and the same payload
  with \<^verbatim>\<open>"armor_class": [15]\<close> raises, because \<^verbatim>\<open>15\<close> has no \<^verbatim>\<open>get\<close>.
\<close>

theorem armor_class_list_of_non_objects_raises:
  "process_monster_data (\<lambda>v. None) (JObj [(''name'', JStr ''Odd'')])
     = Inr \<lparr>name = ''Odd'', hit_points = None, armor_class = None, actions = []\<rparr>
   \<and> process_monster_data (\<lambda>v. None)
        (JObj [(''armor_class'', JList [JInt 15]), (''name'', JStr ''Odd'')])
     = Inl (Exception ''Failed to process monster data'')"
  by (simp add: process_monster_fields_def extract_armor_class_def extract_actions_def
        Monster_init_def dict_get_def)

text \<open>
  C4. Take any payload without a \<open>hit_points\<close> key that normalizes to \<open>m\<close>. Then \<open>m\<close>
  has the absent-marker for hit points; the payload with \<open>hit_points: null\<close> normalizes
  to the same \<open>m\<close>; and the payload with \<open>hit_points: 0\<close> normalizes to \<open>m\<close> with the
  stored value 0, which is not the absent-marker.
\<close>

theorem hit_points_zero_kept_null_and_missing_absent:
  assumes "map_of d ''hit_points'' = None"
    and "process_monster_data lax (JObj d) = Inr m"
  shows "hit_points m = None
     \<and> process_monster_data lax (JObj ((''hit_points'', JNull) # d)) = Inr m
     \<and> process_monster_data lax (JObj ((''hit_points'', JInt 0) # d)) = Inr (m\<lparr>hit_points := Some 0\<rparr>)
     \<and> hit_points (m\<lparr>hit_points := Some 0\<rparr>) \<noteq> None"
  using assms
  by (auto simp: process_monster_fields_def extract_armor_class_other_key
        extract_actions_other_key Monster_init_def dict_get_def split: sum.splits)

theorem hit_points_zero_kept_null_and_missing_absent_witness:
  "map_of [(''name'', JStr ''Ghost''), (''armor_class'', JList [JObj [(''value'', JInt 11)]])]
      ''hit_points'' = None
   \<and> process_monster_data (\<lambda>v. None)
        (JObj [(''name'', JStr ''Ghost''), (''armor_class'', JList [JObj [(''value'', JInt 11)]])])
       = Inr \<lparr>name = ''Ghost'', hit_points = None, armor_class = Some 11, actions = []\<rparr>
   \<and> process_monster_data (\<lambda>v. None)
        (JObj [(''hit_points'', JNull), (''name'', JStr ''Ghost''),
               (''armor_class'', JList [JObj [(''value'', JInt 11)]])])
       = Inr \<lparr>name = ''Ghost'', hit_points = None, armor_class = Some 11, actions = []\<rparr>
   \<and> process_monster_data (\<lambda>v. None)
        (JObj [(''hit_points'', JInt 0), (''name'', JStr ''Ghost''),
               (''armor_class'', JList [JObj [(''value'', JInt 11)]])])
       = Inr \<lparr>name = ''Ghost'', hit_points = Some 0, armor_class = Some 11, actions = []\<rparr>"
  using hit_points_zero_kept_null_and_missing_absent
    [of "[(''name'', JStr ''Ghost''), (''armor_class'', JList [JObj [(''value'', JInt 11)]])]"
      "\<lambda>v. None"
      "\<lparr>name = ''Ghost'', hit_points = None, armor_class = Some 11, actions = []\<rparr>"]
  by (simp add: process_monster_fields_def extract_armor_class_def extract_actions_def
        Monster_init_def dict_get_def)

text \<open>
  C5. Take any payload without an \<open>armor_class\<close> key that normalizes to \<open>m\<close>; \<open>m\<close> has
  the absent-marker for armor class. Setting \<open>armor_class\<close> to a list whose first entry
  is an object with the integer \<open>a\<close> under \<open>value\<close> stores \<open>a\<close> (the claim's
  \<^verbatim>\<open>[{"value": 15}]\<close>); to a bare integer \<open>b\<close> other than 0 stores \<open>b\<close> (the claim's 12);
  to the empty list, or to a list whose first entry is an object without \<open>value\<close>,
  leaves the absent-marker.
\<close>

theorem armor_class_accepted_shapes:
  assumes "map_of d ''armor_class'' = None"
    and "process_monster_data lax (JObj d) = Inr m"
    and "map_of entry ''value'' = Some (JInt a)"
    and "b \<noteq> 0"
    and "map_of entry' ''value'' = None"
  shows "process_monster_data lax (JObj ((''armor_class'', JList (JObj entry # rest)) # d))
           = Inr (m\<lparr>armor_class := Some a\<rparr>)
       \<and> process_monster_data lax (JObj ((''armor_class'', JInt b) # d))
           = Inr (m\<lparr>armor_class := Some b\<rparr>)
       \<and> process_monster_data lax (JObj ((''armor_class'', JList []) # d)) = Inr m
       \<and> armor_class m = None
       \<and> process_monster_data lax (JObj ((''armor_class'', JList (JObj entry' # rest')) # d)) = Inr m"
proof -
  have none: "armor_class m = None"
    using assms(1,2) by (rule process_monster_data_without_armor_class)
  then have same: "m\<lparr>armor_class := None\<rparr> = m" by simp
  have "extract_armor_class ((''armor_class'', JList (JObj entry # rest)) # d) = Inr (JInt a)"
    using assms(3) by (simp add: extract_armor_class_def dict_get_def)
  then have 1: "process_monster_data lax (JObj ((''armor_class'', JList (JObj entry # rest)) # d))
           = Inr (m\<lparr>armor_class := Some a\<rparr>)"
    by (rule process_monster_data_with_armor_class[OF assms(1,2), where r="Some a"]) simp
  have "extract_armor_class ((''armor_class'', JInt b) # d) = Inr (JInt b)"
    using assms(4) by (simp add: extract_armor_class_def)
  then have 2: "process_monster_data lax (JObj ((''armor_class'', JInt b) # d))
           = Inr (m\<lparr>armor_class := Some b\<rparr>)"
    by (rule process_monster_data_with_armor_class[OF assms(1,2), where r="Some b"]) simp
  have "extract_armor_class ((''armor_class'', JList []) # d) = Inr JNull"
    by (simp add: extract_armor_class_def)
  then have "process_monster_data lax (JObj ((''armor_class'', JList []) # d))
           = Inr (m\<lparr>armor_class := None\<rparr>)"
    by (rule process_monster_data_with_armor_class[OF assms(1,2), where r=None]) simp
  then have 3: "process_monster_data lax (JObj ((''armor_class'', JList []) # d)) = Inr m"
    using same by simp
  have "extract_armor_class ((''armor_class'', JList (JObj entry' # rest')) # d) = Inr JNull"
    using assms(5) by (simp add: extract_armor_class_def dict_get_def)
  then have "process_monster_data lax (JObj ((''armor_class'', JList (JObj entry' # rest')) # d))
           = Inr (m\<lparr>armor_class := None\<rparr>)"
    by (rule process_monster_data_with_armor_class[OF assms(1,2), where r=None]) simp
  then have 4: "process_monster_data lax (JObj ((''armor_class'', JList (JObj entry' # rest')) # d)) = Inr m"
    using same by simp
  from 1 2 3 4 none show ?thesis by simp
qed

theorem armor_class_accepted_shapes_witness:
  "map_of [(''name'', JStr ''Monster''), (''hit_points'', JInt 10)] ''armor_class'' = None
   \<and> process_monster_data (\<lambda>v. None) (JObj [(''name'', JStr ''Monster''), (''hit_points'', JInt 10)])
       = Inr \<lparr>name = ''Monster'', hit_points = Some 10, armor_class = None, actions = []\<rparr>
   \<and> map_of [(''value'', JInt 15)] ''value'' = Some (JInt 15)
   \<and> (12::int) \<noteq> 0
   \<and> map_of [(''type'', JStr ''natural'')] ''value'' = None
   \<and> process_monster_data (\<lambda>v. None)
        (JObj [(''armor_class'', JList [JObj [(''value'', JInt 15)]]),
               (''name'', JStr ''Monster''), (''hit_points'', JInt 10)])
       = Inr \<lparr>name = ''Monster'', hit_points = Some 10, armor_class = Some 15, actions = []\<rparr>
   \<and> process_monster_data (\<lambda>v. None)
        (JObj [(''armor_class'', JInt 12), (''name'', JStr ''Monster''), (''hit_points'', JInt 10)])
       = Inr \<lparr>name = ''Monster'', hit_points = Some 10, armor_class = Some 12, actions = []\<rparr>
   \<and> process_monster_data (\<lambda>v. None)
        (JObj [(''armor_class'', JList []), (''name'', JStr ''Monster''), (''hit_points'', JInt 10)])
       = Inr \<lparr>name = ''Monster'', hit_points = Some 10, armor_class = None, actions = []\<rparr>
   \<and> process_monster_data (\<lambda>v. None)
        (JObj [(''armor_class'', JList [JObj [(''type'', JStr ''natural'')]]),
               (''name'', JStr ''Monster''), (''hit_points'', JInt 10)])
       = Inr \<lparr>name = ''Monster'', hit_points = Some 10, armor_class = None, actions = []\<rparr>"
  using armor_class_accepted_shapes
    [of "[(''name'', JStr ''Monster''), (''hit_points'', JInt 10)]" "\<lambda>v. None"
      "\<lparr>name = ''Monster'', hit_points = Some 10, armor_class = None, actions = []\<rparr>"
      "[(''value'', JInt 15)]" 15 12 "[(''type'', JStr ''natural'')]" "[]" "[]"]
  by (simp add: process_monster_fields_def extract_armor_class_def extract_actions_def
        Monster_init_def dict_get_def)

section \<open>Sampling\<close>

lemma draw_length: "k \<le> length pool \<Longrightarrow> length (draw rng i pool k) = k"
proof (induction k arbitrary: i pool)
  case 0
  then show ?case by simp
next
  case (Suc k)
  then obtain p ps where pool: "pool = p # ps" by (cases pool) auto
  let ?j = "rng i mod length (p # ps)"
  have j: "?j < length (p # ps)" by simp
  have "length (take ?j (p # ps) @ drop (Suc ?j) (p # ps)) = length ps"
    using j by (simp del: take_Cons' drop_Suc_Cons) 
  then have "k \<le> length (take ?j (p # ps) @ drop (Suc ?j) (p # ps))"
    using Suc.prems pool by simp
  then have "length (draw rng (Suc i) (take ?j (p # ps) @ drop (Suc ?j) (p # ps)) k) = k"
    by (rule Suc.IH)
  then show ?case unfolding pool by (simp add: Let_def)
qed

lemma draw_map: "draw rng i (map f pool) k = map f (draw rng i pool k)"
proof (induction k arbitrary: i pool)
  case 0
  then show ?case by simp
next
  case (Suc k)
  show ?case
  proof (cases pool)
    case Nil
    then show ?thesis by simp
  next
    case (Cons p ps)
    let ?j = "rng i mod length (p # ps)"
    have j: "?j < length (p # ps)" by simp
    have nth: "map f (p # ps) ! ?j = f ((p # ps) ! ?j)"
      using j by (rule nth_map)
    have rest: "take ?j (map f (p # ps)) @ drop (Suc ?j) (map f (p # ps))
        = map f (take ?j (p # ps) @ drop (Suc ?j) (p # ps))"
      by (simp only: take_map drop_map map_append)
    have "draw rng i (map f (p # ps)) (Suc k)
        = map f (p # ps) ! ?j # draw rng (Suc i) (take ?j (map f (p # ps)) @ drop (Suc ?j) (map f (p # ps))) k"
      by (simp add: Let_def)
    also have "\<dots> = f ((p # ps) ! ?j) # map f (draw rng (Suc i) (take ?j (p # ps) @ drop (Suc ?j) (p # ps)) k)"
      by (simp only: nth rest Suc.IH)
    also have "\<dots> = map f (draw rng i (p # ps) (Suc k))"
      by (simp add: Let_def)
    finally show ?thesis using Cons by simp
  qed
qed

lemma draw_distinct:
  "distinct pool \<Longrightarrow> distinct (draw rng i pool k) \<and> set (draw rng i pool k) \<subseteq> set pool"
proof (induction k arbitrary: i pool)
  case 0
  then show ?case by simp
next
  case (Suc k)
  show ?case
  proof (cases pool)
    case Nil
    then show ?thesis by simp
  next
    case (Cons p ps)
    let ?j = "rng i mod length (p # ps)"
    let ?rest = "take ?j (p # ps) @ drop (Suc ?j) (p # ps)"
    have j: "?j < length (p # ps)" by simp
    have split: "p # ps = take ?j (p # ps) @ (p # ps) ! ?j # drop (Suc ?j) (p # ps)"
      using j by (rule id_take_nth_drop)
    have "distinct (take ?j (p # ps) @ (p # ps) ! ?j # drop (Suc ?j) (p # ps))"
      using Suc.prems Cons split by simp
    then have d: "distinct ?rest" and notin: "(p # ps) ! ?j \<notin> set ?rest"
      by auto
    have sub: "set ?rest \<subseteq> set (p # ps)"
      by (metis set_take_subset set_drop_subset Un_least set_append)
    have mem: "(p # ps) ! ?j \<in> set (p # ps)"
      using j by (rule nth_mem)
    from Suc.IH[OF d] have ih: "distinct (draw rng (Suc i) ?rest k)"
      "set (draw rng (Suc i) ?rest k) \<subseteq> set ?rest" by auto
    have eq: "draw rng i (p # ps) (Suc k) = (p # ps) ! ?j # draw rng (Suc i) ?rest k"
      by (simp add: Let_def)
    show ?thesis
      unfolding Cons eq using ih notin sub mem by auto
  qed
qed

text \<open>
  C6 (amended). For every summary sequence of length \<open>n\<close> and every requested count
  that is not negative, select_random_monsters returns \<open>min(n, count)\<close> items, taken at
  pairwise distinct positions of the input (no position is chosen twice), whatever the
  generator yields. For \<open>n = 0\<close> that is the empty sequence.
\<close>

theorem select_random_monsters_cardinality_distinct:
  assumes "0 \<le> count"
  shows "\<exists>positions. distinct positions \<and> set positions \<subseteq> {..<length monsters}
           \<and> int (length positions) = min (int (length monsters)) count
           \<and> select_random_monsters rng monsters count = Inr (map (nth monsters) positions)"
proof (cases "int (length monsters) < count")
  case True
  let ?ps = "[0..<length monsters]"
  have "select_random_monsters rng monsters count = Inr (map (nth monsters) ?ps)"
    using True by (simp add: select_random_monsters_def map_nth)
  moreover have "distinct ?ps" "set ?ps \<subseteq> {..<length monsters}" by auto
  moreover have "int (length ?ps) = min (int (length monsters)) count" using True by simp
  ultimately show ?thesis by blast
next
  case False
  let ?ps = "draw rng 0 [0..<length monsters] (nat count)"
  have k: "nat count \<le> length [0..<length monsters]" using False assms by simp
  have "draw rng 0 monsters (nat count) = draw rng 0 (map (nth monsters) [0..<length monsters]) (nat count)"
    by (simp only: map_nth)
  also have "\<dots> = map (nth monsters) ?ps" by (rule draw_map)
  finally have "select_random_monsters rng monsters count = Inr (map (nth monsters) ?ps)"
    using False assms by (simp add: select_random_monsters_def random_sample_def)
  moreover have "distinct ?ps \<and> set ?ps \<subseteq> set [0..<length monsters]"
    by (rule draw_distinct) simp
  then have "distinct ?ps" "set ?ps \<subseteq> {..<length monsters}" by auto
  moreover have "length ?ps = nat count" using k by (rule draw_length)
  then have "int (length ?ps) = min (int (length monsters)) count" using False assms by simp
  ultimately show ?thesis by blast
qed

theorem select_random_monsters_cardinality_distinct_witness:
  "(0::int) \<le> 2
   \<and> (\<exists>positions. distinct positions \<and> set positions \<subseteq> {..<length [''a'', ''b'', ''c'']}
           \<and> int (length positions) = min (int (length [''a'', ''b'', ''c''])) 2
           \<and> select_random_monsters (\<lambda>i. 1) [''a'', ''b'', ''c''] 2 = Inr (map (nth [''a'', ''b'', ''c'']) positions))
   \<and> select_random_monsters (\<lambda>i. 1) [''a'', ''b'', ''c''] 2 = Inr [''b'', ''c'']"
proof -
  have h: "(0::int) \<le> 2" by simp
  have e: "select_random_monsters (\<lambda>i. 1) [''a'', ''b'', ''c''] 2 = Inr [''b'', ''c'']"
    by (simp add: select_random_monsters_def random_sample_def numeral_2_eq_2 Let_def)
  show ?thesis using h select_random_monsters_cardinality_distinct [OF h, of "[''a'', ''b'', ''c'']" "\<lambda>i. 1"] e by simp
qed

text \<open>
  C6 as stated fails for a negative count: the length test on line 74 is false, and
  \<^verbatim>\<open>random.sample([], -1)\<close> raises \<^verbatim>\<open>ValueError\<close>.
\<close>

theorem select_random_monsters_negative_count_raises:
  "select_random_monsters (\<lambda>i. 0) ([] :: monster_summary list) (- 1)
     = Inl (ValueError ''Sample larger than population or is negative'')"
  by (simp add: select_random_monsters_def random_sample_def)

text \<open>
  C10. When the input is shorter than the requested count, select_random_monsters
  returns the input sequence itself.
\<close>

theorem select_random_monsters_short_input_returned:
  assumes "int (length monsters) < count"
  shows "select_random_monsters rng monsters count = Inr monsters"
  using assms by (simp add: select_random_monsters_def)

theorem select_random_monsters_short_input_returned_witness:
  "int (length [''a'']) < 5 \<and> select_random_monsters (\<lambda>i. 0) [''a''] 5 = Inr [''a'']"
  using select_random_monsters_short_input_returned [of "[''a'']" 5 "\<lambda>i. 0"] by simp

section \<open>Detail enrichment\<close>










section \<open>Missing upstream data\<close>

text \<open>
  C8. When the value pulled from the hand-off channel is falsy (\<^verbatim>\<open>None\<close> or an empty
  list in particular), the Sampler, the Enricher and the Persister tasks each raise
  their \<^verbatim>\<open>ValueError\<close>, and the world is as before: no request was made and no file
  written.
\<close>

theorem tasks_reject_empty_upstream:
  assumes "\<not> truthy pulled"
  shows "select_random_monsters_task rng count pulled
           = Inl (ValueError ''No monster data received from fetch_monsters task'')
       \<and> fetch_monster_details_task lax net pulled w
           = (Inl (ValueError ''No selected monsters data received from select_random_monsters task''), w)
       \<and> save_monsters_task lax output_file pulled w
           = (Inl (ValueError ''No monster data received from fetch_monster_details task''), w)"
  using assms
  by (simp add: select_random_monsters_task_def fetch_monster_details_task_def save_monsters_task_def)

theorem tasks_reject_empty_upstream_witness:
  "\<not> truthy JNull
   \<and> select_random_monsters_task (\<lambda>i. 0) 5 JNull
       = Inl (ValueError ''No monster data received from fetch_monsters task'')
   \<and> fetch_monster_details_task (\<lambda>v. None) (\<lambda>log url. Inl RequestException) JNull
        \<lparr>files = Map.empty, writable = (\<lambda>p. True), dump_completes = (\<lambda>p d. True), requests = []\<rparr>
       = (Inl (ValueError ''No selected monsters data received from select_random_monsters task''),
          \<lparr>files = Map.empty, writable = (\<lambda>p. True), dump_completes = (\<lambda>p d. True), requests = []\<rparr>)
   \<and> save_monsters_task (\<lambda>v. None) ''monsters.json'' JNull
        \<lparr>files = Map.empty, writable = (\<lambda>p. True), dump_completes = (\<lambda>p d. True), requests = []\<rparr>
       = (Inl (ValueError ''No monster data received from fetch_monster_details task''),
          \<lparr>files = Map.empty, writable = (\<lambda>p. True), dump_completes = (\<lambda>p d. True), requests = []\<rparr>)
   \<and> \<not> truthy (JList [])
   \<and> save_monsters_task (\<lambda>v. None) ''monsters.json'' (JList [])
        \<lparr>files = Map.empty, writable = (\<lambda>p. True), dump_completes = (\<lambda>p d. True), requests = []\<rparr>
       = (Inl (ValueError ''No monster data received from fetch_monster_details task''),
          \<lparr>files = Map.empty, writable = (\<lambda>p. True), dump_completes = (\<lambda>p d. True), requests = []\<rparr>)"
  using tasks_reject_empty_upstream [of JNull "\<lambda>i. 0" 5 "\<lambda>v. None" "\<lambda>log url. Inl RequestException"
      "\<lparr>files = Map.empty, writable = (\<lambda>p. True), dump_completes = (\<lambda>p d. True), requests = []\<rparr>" "''monsters.json''"]
    tasks_reject_empty_upstream [of "JList []" "\<lambda>i. 0" 5 "\<lambda>v. None" "\<lambda>log url. Inl RequestException"
      "\<lparr>files = Map.empty, writable = (\<lambda>p. True), dump_completes = (\<lambda>p d. True), requests = []\<rparr>" "''monsters.json''"]
  by simp

section \<open>The driver and the output file\<close>

lemma save_monsters_task_file:
  "save_monsters_task lax f pulled w = (Inr saved, w') \<Longrightarrow> files w' f \<noteq> None"
  by (auto simp: save_monsters_task_def save_monsters_to_json_def Let_def split: if_splits sum.splits)

lemma main_output_present: "files w ''monsters.json'' \<noteq> None \<Longrightarrow> main lax net rng w = (0, w)"
  by (simp add: main_def)

lemma main_success_leaves_output:
  assumes "main lax net rng w = (0, w')"
  shows "files w' ''monsters.json'' \<noteq> None"
proof (cases "files w ''monsters.json'' \<noteq> None")
  case True
  then show ?thesis using assms by (simp add: main_def)
next
  case False
  then show ?thesis using assms
    by (auto simp: main_def split: prod.splits sum.splits dest: save_monsters_task_file)
qed

text \<open>
  C9. If \<^verbatim>\<open>monsters.json\<close> exists when main starts, main returns 0 and the world is
  unchanged: no request was made and every file is as it was. And if a run returns 0,
  a further run from the world it left is such a no-op, whatever the generator.
\<close>

theorem main_skips_when_output_exists:
  "(files w ''monsters.json'' \<noteq> None \<longrightarrow> main lax net rng w = (0, w))
   \<and> (fst (main lax net rng w) = 0 \<longrightarrow>
        main lax net rng' (snd (main lax net rng w)) = (0, snd (main lax net rng w)))"
proof (intro conjI impI)
  assume "files w ''monsters.json'' \<noteq> None"
  then show "main lax net rng w = (0, w)" by (rule main_output_present)
next
  assume "fst (main lax net rng w) = 0"
  then have "main lax net rng w = (0, snd (main lax net rng w))"
    by (metis prod.collapse)
  then have "files (snd (main lax net rng w)) ''monsters.json'' \<noteq> None"
    by (rule main_success_leaves_output)
  then show "main lax net rng' (snd (main lax net rng w)) = (0, snd (main lax net rng w))"
    by (rule main_output_present)
qed

theorem main_skips_when_output_exists_witness:
  "main (\<lambda>v. None)
     (\<lambda>log url.
        if url = ''https://www.dnd5eapi.co/api/2014/monsters''
        then Inr (JObj [(''count'', JInt 1),
                        (''results'', JList [JObj [(''index'', JStr ''goblin''), (''name'', JStr ''Goblin''),
                                                   (''url'', JStr ''/api/2014/monsters/goblin'')]])])
        else if url = ''https://www.dnd5eapi.co/api/2014/monsters/goblin''
        then Inr (JObj [(''name'', JStr ''Goblin''), (''hit_points'', JInt 7)])
        else Inl RequestException)
     (\<lambda>i. 0)
     \<lparr>files = Map.empty, writable = (\<lambda>p. True), dump_completes = (\<lambda>p d. True), requests = []\<rparr>
   = (0, \<lparr>files = [''monsters.json'' \<mapsto>
                 Whole (JList [monster_dump \<lparr>name = ''Goblin'', hit_points = Some 7, armor_class = None, actions = []\<rparr>])],
           writable = (\<lambda>p. True), dump_completes = (\<lambda>p d. True),
           requests = [''https://www.dnd5eapi.co/api/2014/monsters'',
                       ''https://www.dnd5eapi.co/api/2014/monsters/goblin'']\<rparr>)
  \<and> main (\<lambda>v. None)
     (\<lambda>log url.
        if url = ''https://www.dnd5eapi.co/api/2014/monsters''
        then Inr (JObj [(''count'', JInt 1),
                        (''results'', JList [JObj [(''index'', JStr ''goblin''), (''name'', JStr ''Goblin''),
                                                   (''url'', JStr ''/api/2014/monsters/goblin'')]])])
        else if url = ''https://www.dnd5eapi.co/api/2014/monsters/goblin''
        then Inr (JObj [(''name'', JStr ''Goblin''), (''hit_points'', JInt 7)])
        else Inl RequestException)
     (\<lambda>i. 0)
     \<lparr>files = [''monsters.json'' \<mapsto>
                 Whole (JList [monster_dump \<lparr>name = ''Goblin'', hit_points = Some 7, armor_class = None, actions = []\<rparr>])],
           writable = (\<lambda>p. True), dump_completes = (\<lambda>p d. True),
           requests = [''https://www.dnd5eapi.co/api/2014/monsters'',
                       ''https://www.dnd5eapi.co/api/2014/monsters/goblin'']\<rparr>
   = (0, \<lparr>files = [''monsters.json'' \<mapsto>
                 Whole (JList [monster_dump \<lparr>name = ''Goblin'', hit_points = Some 7, armor_class = None, actions = []\<rparr>])],
           writable = (\<lambda>p. True), dump_completes = (\<lambda>p d. True),
           requests = [''https://www.dnd5eapi.co/api/2014/monsters'',
                       ''https://www.dnd5eapi.co/api/2014/monsters/goblin'']\<rparr>)"
proof -
  let ?net = "\<lambda>(log::string list) url.
        if url = ''https://www.dnd5eapi.co/api/2014/monsters''
        then Inr (JObj [(''count'', JInt 1),
                        (''results'', JList [JObj [(''index'', JStr ''goblin''), (''name'', JStr ''Goblin''),
                                                   (''url'', JStr ''/api/2014/monsters/goblin'')]])])
        else if url = ''https://www.dnd5eapi.co/api/2014/monsters/goblin''
        then Inr (JObj [(''name'', JStr ''Goblin''), (''hit_points'', JInt 7)])
        else Inl RequestException"
  let ?w0 = "\<lparr>files = Map.empty, writable = (\<lambda>p. True), dump_completes = (\<lambda>p d. True), requests = []\<rparr>"
  let ?w1 = "\<lparr>files = [''monsters.json'' \<mapsto>
                 Whole (JList [monster_dump \<lparr>name = ''Goblin'', hit_points = Some 7, armor_class = None, actions = []\<rparr>])],
           writable = (\<lambda>p. True), dump_completes = (\<lambda>p d. True),
           requests = [''https://www.dnd5eapi.co/api/2014/monsters'',
                       ''https://www.dnd5eapi.co/api/2014/monsters/goblin'']\<rparr>"
  have run: "main (\<lambda>v. None) ?net (\<lambda>i. 0) ?w0 = (0, ?w1)"
    by (simp add: main_def fetch_monsters_task_def fetch_monsters_list_def http_get_def BASE_URL_def
          required_str_def MonsterSummary_fields_def summary_dump_def
          select_random_monsters_task_def select_random_monsters_def
          fetch_monster_details_task_def fetch_and_process_def fetch_monster_details_def
          full_url_def process_monster_fields_def extract_armor_class_def extract_actions_def
          Monster_init_def dict_get_def monster_dump_def json_of_int_option_def
          save_monsters_task_def save_monsters_to_json_def)
  show ?thesis
    using main_skips_when_output_exists [of ?w0 "\<lambda>v. None" ?net "\<lambda>i. 0" "\<lambda>i. 0"] run by simp
qed

text \<open>
  C2 (amended). For every entity sequence and every destination that already names a
  file and can be opened for writing, save_monsters_to_json does not refuse: what the
  file held plays no part. The call does exactly what it does when no file is there;
  afterwards the file holds the dumped sequence, in full when \<^verbatim>\<open>json.dump\<close> runs to its
  end and in part when it raises; and the path is returned in the first case only. The
  guard against redoing existing output is the one in main.
\<close>

theorem save_monsters_to_json_disregards_existing_file:
  assumes "writable w filename"
  shows "save_monsters_to_json monsters filename (w\<lparr>files := (files w)(filename \<mapsto> old)\<rparr>)
           = save_monsters_to_json monsters filename (w\<lparr>files := (files w)(filename := None)\<rparr>)
       \<and> files (snd (save_monsters_to_json monsters filename
                        (w\<lparr>files := (files w)(filename \<mapsto> old)\<rparr>))) filename
           = Some (if dump_completes w filename (JList (map monster_dump monsters))
                   then Whole (JList (map monster_dump monsters))
                   else Partial (JList (map monster_dump monsters)))
       \<and> (fst (save_monsters_to_json monsters filename
                  (w\<lparr>files := (files w)(filename \<mapsto> old)\<rparr>)) = Inr filename)
           = dump_completes w filename (JList (map monster_dump monsters))"
proof -
  let ?data = "JList (map monster_dump monsters)"
  let ?with = "w\<lparr>files := (files w)(filename \<mapsto> old)\<rparr>"
  let ?without = "w\<lparr>files := (files w)(filename := None)\<rparr>"
  have open_with: "writable ?with filename" and open_without: "writable ?without filename"
    using assms by simp_all
  show ?thesis
  proof (cases "dump_completes w filename ?data")
    case True
    then have "save_monsters_to_json monsters filename ?with
        = (Inr filename, w\<lparr>files := (files w)(filename \<mapsto> Whole ?data)\<rparr>)"
      and "save_monsters_to_json monsters filename ?without
        = (Inr filename, w\<lparr>files := (files w)(filename \<mapsto> Whole ?data)\<rparr>)"
      using open_with open_without by (simp_all add: save_monsters_to_json_def)
    with True show ?thesis by simp
  next
    case False
    then have "save_monsters_to_json monsters filename ?with
        = (Inl (Exception ''Failed to save monsters to JSON''),
           w\<lparr>files := (files w)(filename \<mapsto> Partial ?data)\<rparr>)"
      and "save_monsters_to_json monsters filename ?without
        = (Inl (Exception ''Failed to save monsters to JSON''),
           w\<lparr>files := (files w)(filename \<mapsto> Partial ?data)\<rparr>)"
      using open_with open_without by (simp_all add: save_monsters_to_json_def)
    with False show ?thesis by simp
  qed
qed

theorem save_monsters_to_json_disregards_existing_file_witness:
  "writable \<lparr>files = Map.empty, writable = (\<lambda>p. True), dump_completes = (\<lambda>p d. True), requests = []\<rparr>
      ''monsters.json''
   \<and> save_monsters_to_json [\<lparr>name = ''Goblin'', hit_points = Some 7, armor_class = Some 15, actions = []\<rparr>]
        ''monsters.json''
        \<lparr>files = [''monsters.json'' \<mapsto> Whole (JList [])], writable = (\<lambda>p. True),
          dump_completes = (\<lambda>p d. True), requests = []\<rparr>
     = save_monsters_to_json [\<lparr>name = ''Goblin'', hit_points = Some 7, armor_class = Some 15, actions = []\<rparr>]
        ''monsters.json''
        \<lparr>files = Map.empty, writable = (\<lambda>p. True), dump_completes = (\<lambda>p d. True), requests = []\<rparr>
   \<and> save_monsters_to_json [\<lparr>name = ''Goblin'', hit_points = Some 7, armor_class = Some 15, actions = []\<rparr>]
        ''monsters.json''
        \<lparr>files = [''monsters.json'' \<mapsto> Whole (JList [])], writable = (\<lambda>p. True),
          dump_completes = (\<lambda>p d. True), requests = []\<rparr>
     = (Inr ''monsters.json'',
        \<lparr>files = [''monsters.json'' \<mapsto>
            Whole (JList [monster_dump \<lparr>name = ''Goblin'', hit_points = Some 7, armor_class = Some 15, actions = []\<rparr>])],
          writable = (\<lambda>p. True), dump_completes = (\<lambda>p d. True), requests = []\<rparr>)
   \<and> writable \<lparr>files = Map.empty, writable = (\<lambda>p. True), dump_completes = (\<lambda>p d. False), requests = []\<rparr>
      ''monsters.json''
   \<and> save_monsters_to_json [\<lparr>name = ''Goblin'', hit_points = Some 7, armor_class = Some 15, actions = []\<rparr>]
        ''monsters.json''
        \<lparr>files = [''monsters.json'' \<mapsto> Whole (JList [])], writable = (\<lambda>p. True),
          dump_completes = (\<lambda>p d. False), requests = []\<rparr>
     = (Inl (Exception ''Failed to save monsters to JSON''),
        \<lparr>files = [''monsters.json'' \<mapsto>
            Partial (JList [monster_dump \<lparr>name = ''Goblin'', hit_points = Some 7, armor_class = Some 15, actions = []\<rparr>])],
          writable = (\<lambda>p. True), dump_completes = (\<lambda>p d. False), requests = []\<rparr>)"
  using save_monsters_to_json_disregards_existing_file
      [of "\<lparr>files = Map.empty, writable = (\<lambda>p. True), dump_completes = (\<lambda>p d. True), requests = []\<rparr>"
        "''monsters.json''"
        "[\<lparr>name = ''Goblin'', hit_points = Some 7, armor_class = Some 15, actions = []\<rparr>]"
        "Whole (JList [])"]
    save_monsters_to_json_disregards_existing_file
      [of "\<lparr>files = Map.empty, writable = (\<lambda>p. True), dump_completes = (\<lambda>p d. False), requests = []\<rparr>"
        "''monsters.json''"
        "[\<lparr>name = ''Goblin'', hit_points = Some 7, armor_class = Some 15, actions = []\<rparr>]"
        "Whole (JList [])"]
  by (simp add: save_monsters_to_json_def)

text \<open>
  C2 as stated fails: with \<^verbatim>\<open>monsters.json\<close> holding the empty array, saving one entity
  there succeeds and the file then holds that entity.
\<close>

theorem save_monsters_to_json_overwrites_existing:
  "files \<lparr>files = [''monsters.json'' \<mapsto> Whole (JList [])], writable = (\<lambda>p. True),
           dump_completes = (\<lambda>p d. True), requests = []\<rparr>
      ''monsters.json'' = Some (Whole (JList []))
   \<and> fst (save_monsters_to_json
        [\<lparr>name = ''Goblin'', hit_points = Some 7, armor_class = Some 15, actions = []\<rparr>]
        ''monsters.json''
        \<lparr>files = [''monsters.json'' \<mapsto> Whole (JList [])], writable = (\<lambda>p. True),
          dump_completes = (\<lambda>p d. True), requests = []\<rparr>)
      = Inr ''monsters.json''
   \<and> files (snd (save_monsters_to_json
        [\<lparr>name = ''Goblin'', hit_points = Some 7, armor_class = Some 15, actions = []\<rparr>]
        ''monsters.json''
        \<lparr>files = [''monsters.json'' \<mapsto> Whole (JList [])], writable = (\<lambda>p. True),
          dump_completes = (\<lambda>p d. True), requests = []\<rparr>))
      ''monsters.json''
      = Some (Whole (JList [JObj [(''name'', JStr ''Goblin''), (''hit_points'', JInt 7),
                                  (''armor_class'', JInt 15), (''actions'', JList [])]]))
   \<and> Whole (JList [JObj [(''name'', JStr ''Goblin''), (''hit_points'', JInt 7),
                          (''armor_class'', JInt 15), (''actions'', JList [])]]) \<noteq> Whole (JList [])"
  by (simp add: save_monsters_to_json_def monster_dump_def json_of_int_option_def)

end
